theory Spec2Isabelle
  imports Main
begin

section \<open>The repository miner: fetching commits and issues into tables\<close>

text \<open>
  A shallow embedding of \<^verbatim>\<open>src/repo_miner.py\<close>: the two fetchers
  \<^verbatim>\<open>fetch_commits\<close> and \<^verbatim>\<open>fetch_issues\<close>, the objects they read from the
  repository-hosting API, and the table they build. Exceptions are values of a sum type
  (\<open>Inl\<close> is a raised error), the process environment and the API client are
  parameters, and the lazily paginated sequences the API hands back are a datatype
  whose tail may raise.
\<close>

subsection \<open>Errors\<close>

text \<open>
  The three kinds of error the API client raises, and the two Python raises when the
  fetchers read a record: an attribute of \<^verbatim>\<open>None\<close>, an index out of range.
\<close>

datatype error =
    AuthenticationError
  | NotFoundError
  | TransportError
  | AttributeError
  | IndexError

subsection \<open>The objects of the API\<close>

text \<open>
  A timestamp is a point on the time line, counted in microseconds (the resolution of
  Python's \<^verbatim>\<open>datetime\<close>).
\<close>

type_synonym datetime = int

text \<open>The name of an author may be absent (\<^verbatim>\<open>None\<close>).\<close>

record GitAuthor =
  name :: "string option"
  email :: string
  date :: datetime

text \<open>The author of a commit may be absent (\<^verbatim>\<open>None\<close>).\<close>

record GitCommit =
  author :: "GitAuthor option"
  message :: string

record Commit =
  sha :: string
  commit :: GitCommit

record NamedUser =
  login :: string

record IssuePullRequest =
  html_url :: string

text \<open>
  An entry of the issue listing. The field \<open>issue_id\<close> is the source's
  \<^verbatim>\<open>id\<close>. \<open>pull_request\<close> is an object on a pull request and
  \<^verbatim>\<open>None\<close> on a true issue; \<open>closed_at\<close> is \<^verbatim>\<open>None\<close> while the
  issue is open; the \<open>user\<close> may be absent (\<^verbatim>\<open>None\<close>).
\<close>

record Issue =
  issue_id :: int
  number :: int
  title :: string
  user :: "NamedUser option"
  state :: string
  created_at :: datetime
  closed_at :: "datetime option"
  comments :: int
  pull_request :: "IssuePullRequest option"

text \<open>
  A paginated sequence: the items come one by one, and fetching the next one ends the
  sequence, yields an item, or raises. A Python list is a sequence that never raises.
\<close>

datatype 'a paged = End | Item 'a "'a paged" | Raise error

primrec of_list :: "'a list \<Rightarrow> 'a paged" where
  "of_list [] = End"
| "of_list (x # xs) = Item x (of_list xs)"

text \<open>\<open>followed_by xs p\<close>: the items \<open>xs\<close>, then whatever \<open>p\<close> does.\<close>

primrec followed_by :: "'a list \<Rightarrow> 'a paged \<Rightarrow> 'a paged" where
  "followed_by [] p = p"
| "followed_by (x # xs) p = Item x (followed_by xs p)"

text \<open>The items a sequence yields before it ends or raises.\<close>

primrec items :: "'a paged \<Rightarrow> 'a list" where
  "items End = []"
| "items (Item x p) = x # items p"
| "items (Raise e) = []"

text \<open>
  The repository object: both listings may raise when called, and again while they are
  iterated. The issue listing takes the state filter.
\<close>

record Repository =
  get_commits :: "error + Commit paged"
  get_issues :: "string \<Rightarrow> error + Issue paged"

record Client =
  get_repo :: "string \<Rightarrow> error + Repository"

subsection \<open>Tables\<close>

text \<open>
  A value of a table cell. The fetchers build each row as a dictionary literal, here
  an association list in the order of the literal's keys.
\<close>

datatype cell =
    VStr string
  | VInt int
  | VTime datetime
  | VUser NamedUser
  | VNone

type_synonym record_dict = "(string \<times> cell) list"

record DataFrame =
  columns :: "string list"
  rows :: "record_dict list"

text \<open>
  \<^verbatim>\<open>pd.DataFrame(dicts)\<close> on a list of dictionaries: the columns are the keys
  of the dictionaries in the order in which they first appear, and there is one row for
  each dictionary. An empty list has no key, hence no column.
\<close>

definition pd_DataFrame :: "record_dict list \<Rightarrow> DataFrame" where
  "pd_DataFrame dicts =
     \<lparr>columns = rev (remdups (rev (concat (map (map fst) dicts)))), rows = dicts\<rparr>"

text \<open>\<^verbatim>\<open>len(df)\<close>: the number of rows.\<close>

definition len :: "DataFrame \<Rightarrow> nat" where
  "len df = length (rows df)"

subsection \<open>fetch\_commits\<close>

text \<open>
  \<^verbatim>\<open>s.split(sep, 1)\<close> for a separator of one character: the text before the first
  separator and the text after it, or the whole text alone when it has none.
\<close>

fun split_once :: "char \<Rightarrow> string \<Rightarrow> string list" where
  "split_once sep [] = [[]]"
| "split_once sep (c # cs) =
     (if c = sep then [[], cs]
      else (case split_once sep cs of
              [] \<Rightarrow> [[c]]
            | h # t \<Rightarrow> (c # h) # t))"

text \<open>The line feed, Python's \<^verbatim>\<open>"\n"\<close>.\<close>

definition newline :: char where
  "newline = CHR 0x0A"

text \<open>
  The dictionary of one commit (lines 42 to 48). Reading \<^verbatim>\<open>.name\<close> of an absent
  author raises; the name itself is copied as it is, absent or not; \<^verbatim>\<open>[0]\<close>
  raises on an empty list.
\<close>

definition commit_record :: "Commit \<Rightarrow> error + record_dict" where
  "commit_record c =
     (case author (commit c) of
        None \<Rightarrow> Inl AttributeError
      | Some a \<Rightarrow>
          (case split_once newline (message (commit c)) of
             [] \<Rightarrow> Inl IndexError
           | m # _ \<Rightarrow>
               Inr [(''sha'', VStr (sha c)),
                    (''author'', (case name a of None \<Rightarrow> VNone | Some n \<Rightarrow> VStr n)),
                    (''email'', VStr (email a)),
                    (''date'', VTime (date a)),
                    (''message'', VStr m)]))"

text \<open>
  \<^verbatim>\<open>commits[:stop]\<close> on the list paginated by PyGithub (the comment of line 32):
  the slice yields the items at the indices below \<open>stop\<close> and fetches nothing beyond
  them; with a stop of zero or less it yields nothing. A Python list agrees for every
  stop that is not negative, and for a negative stop drops items from its end instead;
  nothing below is about a negative stop.
\<close>

fun slice_stop :: "nat \<Rightarrow> 'a paged \<Rightarrow> 'a paged" where
  "slice_stop 0 p = End"
| "slice_stop (Suc n) End = End"
| "slice_stop (Suc n) (Raise e) = Raise e"
| "slice_stop (Suc n) (Item x p) = Item x (slice_stop n p)"

definition slice_to :: "int \<Rightarrow> 'a paged \<Rightarrow> 'a paged" where
  "slice_to stop p = (if stop \<le> 0 then End else slice_stop (nat stop) p)"

text \<open>The loop of lines 39 to 49, with the list \<open>dicts\<close> it appends to.\<close>

fun commits_loop :: "Commit paged \<Rightarrow> record_dict list \<Rightarrow> error + record_dict list" where
  "commits_loop End dicts = Inr dicts"
| "commits_loop (Raise e) dicts = Inl e"
| "commits_loop (Item c rest) dicts =
     (case commit_record c of
        Inl e \<Rightarrow> Inl e
      | Inr d \<Rightarrow> commits_loop rest (dicts @ [d]))"

text \<open>
  \<open>environ\<close> is the process environment and \<open>Github\<close> the client's constructor,
  both parameters here.
\<close>

definition fetch_commits ::
  "(string \<rightharpoonup> string) \<Rightarrow> (string option \<Rightarrow> Client) \<Rightarrow> string \<Rightarrow> int option
     \<Rightarrow> error + DataFrame" where
  "fetch_commits environ Github repo_name max_commits =
     (let token = environ ''GITHUB_TOKEN'';
          gh_client = Github token
      in case get_repo gh_client repo_name of
           Inl e \<Rightarrow> Inl e
         | Inr repo \<Rightarrow>
             (case get_commits repo of
                Inl e \<Rightarrow> Inl e
              | Inr commits \<Rightarrow>
                  (let commits' = (case max_commits of
                                     None \<Rightarrow> commits
                                   | Some m \<Rightarrow> slice_to m commits)
                   in case commits_loop commits' [] of
                        Inl e \<Rightarrow> Inl e
                      | Inr dicts \<Rightarrow> Inr (pd_DataFrame dicts))))"

subsection \<open>fetch\_issues\<close>

text \<open>
  \<^verbatim>\<open>(closed - created).days\<close>: Python keeps a duration as days, seconds and
  microseconds with the seconds and microseconds never negative, so \<^verbatim>\<open>.days\<close> is
  the floor of the duration over one day.
\<close>

definition microseconds_per_day :: int where
  "microseconds_per_day = 86400000000"

definition timedelta_days :: "datetime \<Rightarrow> datetime \<Rightarrow> int" where
  "timedelta_days closed created = (closed - created) div microseconds_per_day"

text \<open>
  The dictionary of one issue (lines 81 to 93). The user is copied as it is, absent or
  not: nothing of it is read.
\<close>

definition issue_record :: "Issue \<Rightarrow> record_dict" where
  "issue_record issue =
     [(''id'', VInt (issue_id issue)),
      (''number'', VInt (number issue)),
      (''title'', VStr (title issue)),
      (''user'', (case user issue of None \<Rightarrow> VNone | Some u \<Rightarrow> VUser u)),
      (''state'', VStr (state issue)),
      (''created_at'', VTime (created_at issue)),
      (''closed_at'', (case closed_at issue of None \<Rightarrow> VNone | Some t \<Rightarrow> VTime t)),
      (''comments'', VInt (comments issue)),
      (''open_duration_days'',
         (case closed_at issue of
            None \<Rightarrow> VNone
          | Some t \<Rightarrow> VInt (timedelta_days t (created_at issue))))]"

text \<open>
  The test of line 75, \<^verbatim>\<open>max_issues and idx >= max_issues\<close>: \<^verbatim>\<open>None\<close> and
  \<^verbatim>\<open>0\<close> are false in Python.
\<close>

definition cap_reached :: "int option \<Rightarrow> nat \<Rightarrow> bool" where
  "cap_reached max_issues idx =
     (case max_issues of
        None \<Rightarrow> False
      | Some m \<Rightarrow> m \<noteq> 0 \<and> m \<le> int idx)"

text \<open>
  The loop of lines 74 to 94: \<open>idx\<close> is the index \<^verbatim>\<open>enumerate\<close> gives the entry,
  \<open>records\<close> the list appended to. The entry is fetched before the cap is tested.
\<close>

fun issues_loop ::
  "int option \<Rightarrow> nat \<Rightarrow> Issue paged \<Rightarrow> record_dict list \<Rightarrow> error + record_dict list" where
  "issues_loop max_issues idx End records = Inr records"
| "issues_loop max_issues idx (Raise e) records = Inl e"
| "issues_loop max_issues idx (Item issue rest) records =
     (if cap_reached max_issues idx then Inr records
      else if pull_request issue = None
        then issues_loop max_issues (Suc idx) rest (records @ [issue_record issue])
        else issues_loop max_issues (Suc idx) rest records)"

definition fetch_issues ::
  "(string \<rightharpoonup> string) \<Rightarrow> (string option \<Rightarrow> Client) \<Rightarrow> string \<Rightarrow> string \<Rightarrow> int option
     \<Rightarrow> error + DataFrame" where
  "fetch_issues environ Github repo_name state_filter max_issues =
     (let token = environ ''GITHUB_TOKEN'';
          gh_client = Github token
      in case get_repo gh_client repo_name of
           Inl e \<Rightarrow> Inl e
         | Inr repo \<Rightarrow>
             (case get_issues repo state_filter of
                Inl e \<Rightarrow> Inl e
              | Inr issues \<Rightarrow>
                  (case issues_loop max_issues 0 issues [] of
                     Inl e \<Rightarrow> Inl e
                   | Inr records \<Rightarrow> Inr (pd_DataFrame records))))"

subsection \<open>The fetchers over a collaborator with state\<close>

text \<open>
  The same two functions with the state of the remote service made explicit, so that
  a call repeated may answer differently from the first one. Each call of the
  collaborator takes the state and returns the next: \<open>remote_get_repo\<close> is
  \<^verbatim>\<open>Github(token).get_repo(repo_name)\<close> (the constructor alone asks nothing of
  the service) and yields the repository object, of type \<open>'h\<close>; the two listings are
  \<^verbatim>\<open>repo.get_commits()\<close> and \<^verbatim>\<open>repo.get_issues(state=state)\<close>. The fetchers
  make these calls in the order of the source, each where the source has it, and
  iterate the listing with the loops above.
\<close>

record ('w, 'h) Remote =
  remote_get_repo :: "string option \<Rightarrow> string \<Rightarrow> 'w \<Rightarrow> (error + 'h) \<times> 'w"
  remote_get_commits :: "'h \<Rightarrow> 'w \<Rightarrow> (error + Commit paged) \<times> 'w"
  remote_get_issues :: "'h \<Rightarrow> string \<Rightarrow> 'w \<Rightarrow> (error + Issue paged) \<times> 'w"

definition fetch_commits_st ::
  "(string \<rightharpoonup> string) \<Rightarrow> ('w, 'h) Remote \<Rightarrow> string \<Rightarrow> int option \<Rightarrow> 'w
     \<Rightarrow> (error + DataFrame) \<times> 'w" where
  "fetch_commits_st environ remote repo_name max_commits w =
     (let token = environ ''GITHUB_TOKEN''
      in case remote_get_repo remote token repo_name w of
           (Inl e, w1) \<Rightarrow> (Inl e, w1)
         | (Inr repo, w1) \<Rightarrow>
             (case remote_get_commits remote repo w1 of
                (Inl e, w2) \<Rightarrow> (Inl e, w2)
              | (Inr commits, w2) \<Rightarrow>
                  (let commits' = (case max_commits of
                                     None \<Rightarrow> commits
                                   | Some m \<Rightarrow> slice_to m commits)
                   in case commits_loop commits' [] of
                        Inl e \<Rightarrow> (Inl e, w2)
                      | Inr dicts \<Rightarrow> (Inr (pd_DataFrame dicts), w2))))"

definition fetch_issues_st ::
  "(string \<rightharpoonup> string) \<Rightarrow> ('w, 'h) Remote \<Rightarrow> string \<Rightarrow> string \<Rightarrow> int option \<Rightarrow> 'w
     \<Rightarrow> (error + DataFrame) \<times> 'w" where
  "fetch_issues_st environ remote repo_name state_filter max_issues w =
     (let token = environ ''GITHUB_TOKEN''
      in case remote_get_repo remote token repo_name w of
           (Inl e, w1) \<Rightarrow> (Inl e, w1)
         | (Inr repo, w1) \<Rightarrow>
             (case remote_get_issues remote repo state_filter w1 of
                (Inl e, w2) \<Rightarrow> (Inl e, w2)
              | (Inr issues, w2) \<Rightarrow>
                  (case issues_loop max_issues 0 issues [] of
                     Inl e \<Rightarrow> (Inl e, w2)
                   | Inr records \<Rightarrow> (Inr (pd_DataFrame records), w2))))"

text \<open>
  A collaborator without state, as in the sections above, seen as one with state: its
  calls leave the state alone.
\<close>

definition stateless :: "(string option \<Rightarrow> Client) \<Rightarrow> ('w, Repository) Remote" where
  "stateless Github =
     \<lparr>remote_get_repo = (\<lambda>token repo_name w. (get_repo (Github token) repo_name, w)),
      remote_get_commits = (\<lambda>repo w. (get_commits repo, w)),
      remote_get_issues = (\<lambda>repo st w. (get_issues repo st, w))\<rparr>"

subsection \<open>Notions of the specification\<close>

text \<open>The true issues of a listing: the entries that are not pull requests.\<close>

definition true_issues :: "Issue list \<Rightarrow> Issue list" where
  "true_issues xs = filter (\<lambda>i. pull_request i = None) xs"

text \<open>
  The whole-day difference as the specification words it, with the fraction of a day
  dropped (truncation towards zero); it is compared with \<open>timedelta_days\<close> below.
\<close>

definition truncated_days :: "datetime \<Rightarrow> datetime \<Rightarrow> int" where
  "truncated_days closed created =
     sgn (closed - created) * (\<bar>closed - created\<bar> div microseconds_per_day)"

subsection \<open>The collaborator of the tests, and example data\<close>

text \<open>
  \<^verbatim>\<open>DummyRepo\<close> and \<^verbatim>\<open>DummyGithub\<close> of \<^verbatim>\<open>test_repo.py\<close>: the lists are
  Python lists, the issue listing filters by state unless the filter is
  \<^verbatim>\<open>"all"\<close>, and the client returns its repository for every name.
\<close>

definition DummyRepo :: "Commit list \<Rightarrow> Issue list \<Rightarrow> Repository" where
  "DummyRepo commits issues =
     \<lparr>get_commits = Inr (of_list commits),
      get_issues = (\<lambda>st. Inr (of_list (if st = ''all'' then issues
                                          else filter (\<lambda>i. state i = st) issues)))\<rparr>"

definition DummyGithub :: "Repository \<Rightarrow> string option \<Rightarrow> Client" where
  "DummyGithub repo token = \<lparr>get_repo = (\<lambda>repo_name. Inr repo)\<rparr>"

text \<open>A repository whose issue listing ignores the state filter.\<close>

definition UnfilteredRepo :: "Commit list \<Rightarrow> Issue list \<Rightarrow> Repository" where
  "UnfilteredRepo commits issues =
     \<lparr>get_commits = Inr (of_list commits),
      get_issues = (\<lambda>st. Inr (of_list issues))\<rparr>"





definition test_environ :: "string \<rightharpoonup> string" where
  "test_environ = [''GITHUB_TOKEN'' \<mapsto> ''fake-token'']"

text \<open>2025-10-02 and 2025-11-04, midnight UTC, in microseconds since 1970.\<close>

definition t_2025_10_02 :: datetime where
  "t_2025_10_02 = 1759363200000000"

definition t_now :: datetime where
  "t_now = 1762214400000000"

definition commit1 :: Commit where
  "commit1 =
     \<lparr>sha = ''sha1'',
      commit = \<lparr>author = Some \<lparr>name = Some ''Alice'', email = ''a@example.com'', date = t_now\<rparr>,
                message = ''Initial commit'' @ newline # ''Details''\<rparr>\<rparr>"

definition commit2 :: Commit where
  "commit2 =
     \<lparr>sha = ''sha2'',
      commit = \<lparr>author = Some \<lparr>name = Some ''Bob'', email = ''b@example.com'',
                                date = t_now - microseconds_per_day\<rparr>,
                message = ''Bug fix''\<rparr>\<rparr>"


definition issue_a :: Issue where
  "issue_a =
     \<lparr>issue_id = 1, number = 101, title = ''Issue A'', user = Some \<lparr>login = ''alice''\<rparr>,
      state = ''open'', created_at = t_2025_10_02, closed_at = None, comments = 0,
      pull_request = None\<rparr>"

definition pr_a :: Issue where
  "pr_a =
     \<lparr>issue_id = 2, number = 102, title = ''PR A'', user = Some \<lparr>login = ''bob''\<rparr>,
      state = ''closed'', created_at = t_now - 2 * microseconds_per_day,
      closed_at = Some (t_now - microseconds_per_day), comments = 2,
      pull_request = Some \<lparr>html_url = ''pr''\<rparr>\<rparr>"

definition issue_b :: Issue where
  "issue_b =
     \<lparr>issue_id = 3, number = 103, title = ''Issue B'', user = Some \<lparr>login = ''bob''\<rparr>,
      state = ''closed'', created_at = t_now - 2 * microseconds_per_day,
      closed_at = Some t_now, comments = 2, pull_request = None\<rparr>"



text \<open>An entry whose closing time is one second before its creation time.\<close>

definition issue_backdated :: Issue where
  "issue_backdated =
     \<lparr>issue_id = 4, number = 104, title = ''Issue C'', user = Some \<lparr>login = ''carol''\<rparr>,
      state = ''closed'', created_at = t_now, closed_at = Some (t_now - 1000000),
      comments = 0, pull_request = None\<rparr>"

subsection \<open>Facts about the loops\<close>

lemma split_once_not_Nil: "split_once sep s \<noteq> []"
  by (induction s) (auto split: list.splits)

lemma hd_split_once: "hd (split_once sep s) = takeWhile (\<lambda>ch. ch \<noteq> sep) s"
  by (induction s) (auto simp: split_once_not_Nil split: list.splits)

lemma commit_record_Some:
  "author (commit c) = Some a \<Longrightarrow>
   commit_record c =
     Inr [(''sha'', VStr (sha c)),
          (''author'', (case name a of None \<Rightarrow> VNone | Some n \<Rightarrow> VStr n)),
          (''email'', VStr (email a)),
          (''date'', VTime (date a)),
          (''message'', VStr (takeWhile (\<lambda>ch. ch \<noteq> newline) (message (commit c))))]"
  using split_once_not_Nil [of newline "message (commit c)"]
        hd_split_once [of newline "message (commit c)"]
  by (auto simp: commit_record_def split: list.splits)

lemma commit_record_None:
  "author (commit c) = None \<Longrightarrow> commit_record c = Inl AttributeError"
  by (simp add: commit_record_def)

lemma commit_record_Inr:
  "commit_record c = Inr d \<Longrightarrow>
   map_of d ''message'' = Some (VStr (takeWhile (\<lambda>ch. ch \<noteq> newline) (message (commit c))))"
  by (cases "author (commit c)") (auto simp: commit_record_None commit_record_Some)

lemma commits_loop_Inr:
  "commits_loop p acc = Inr ds \<Longrightarrow>
   \<exists>new. ds = acc @ new \<and> list_all2 (\<lambda>c d. commit_record c = Inr d) (items p) new"
proof (induction p arbitrary: acc)
  case End
  then show ?case by simp
next
  case (Item c p)
  then obtain d where d: "commit_record c = Inr d" and rest: "commits_loop p (acc @ [d]) = Inr ds"
    by (auto split: sum.splits)
  from Item.IH [OF rest] obtain new where
    "ds = (acc @ [d]) @ new" "list_all2 (\<lambda>c d. commit_record c = Inr d) (items p) new"
    by blast
  with d show ?case by (intro exI [of _ "d # new"]) simp
next
  case (Raise e)
  then show ?case by simp
qed

lemma commits_loop_followed_by:
  "\<forall>c \<in> set cs. author (commit c) \<noteq> None \<Longrightarrow>
   commits_loop (followed_by cs p) acc =
     commits_loop p (acc @ map (\<lambda>c. projr (commit_record c)) cs)"
proof (induction cs arbitrary: acc)
  case Nil
  then show ?case by simp
next
  case (Cons c cs)
  then obtain a where "author (commit c) = Some a" by auto
  then obtain d where d: "commit_record c = Inr d" by (simp add: commit_record_Some)
  with Cons show ?case by simp
qed

lemma of_list_followed_by: "of_list xs = followed_by xs End"
  by (induction xs) auto

lemma items_of_list: "items (of_list xs) = xs"
  by (induction xs) auto


lemma slice_stop_of_list: "slice_stop n (of_list xs) = of_list (take n xs)"
proof (induction xs arbitrary: n)
  case Nil
  then show ?case by (cases n) auto
next
  case (Cons x xs)
  then show ?case by (cases n) auto
qed

lemma issues_loop_zero_cap:
  "issues_loop (Some 0) idx p acc = issues_loop None idx p acc"
  by (induction p arbitrary: idx acc) (auto simp: cap_reached_def)

lemma issues_loop_no_cap:
  "issues_loop None idx (of_list xs) acc = Inr (acc @ map issue_record (true_issues xs))"
  by (induction xs arbitrary: idx acc) (auto simp: cap_reached_def true_issues_def)

lemma issues_loop_cap:
  "m \<noteq> 0 \<Longrightarrow>
   issues_loop (Some m) idx (of_list xs) acc =
     Inr (acc @ map issue_record (true_issues (take (nat m - idx) xs)))"
proof (induction xs arbitrary: idx acc)
  case Nil
  then show ?case by (simp add: true_issues_def)
next
  case (Cons x xs)
  show ?case
  proof (cases "cap_reached (Some m) idx")
    case True
    then have "nat m - idx = 0" by (auto simp: cap_reached_def)
    with True show ?thesis by (simp add: true_issues_def)
  next
    case False
    with Cons.prems have "nat m - idx = Suc (nat m - Suc idx)"
      by (auto simp: cap_reached_def)
    with False Cons show ?thesis by (simp add: true_issues_def)
  qed
qed

lemma issues_loop_Inr:
  "issues_loop cap idx p acc = Inr rs \<Longrightarrow>
   \<exists>k. rs = acc @ map issue_record (true_issues (take k (items p)))"
proof (induction p arbitrary: idx acc)
  case End
  then show ?case by (simp add: true_issues_def)
next
  case (Item x p)
  show ?case
  proof (cases "cap_reached cap idx")
    case True
    with Item.prems have "rs = acc" by simp
    then show ?thesis by (intro exI [of _ 0]) (simp add: true_issues_def)
  next
    case False
    show ?thesis
    proof (cases "pull_request x = None")
      case True
      with False Item.prems
      have "issues_loop cap (Suc idx) p (acc @ [issue_record x]) = Inr rs" by simp
      from Item.IH [OF this] obtain k where
        "rs = (acc @ [issue_record x]) @ map issue_record (true_issues (take k (items p)))" ..
      with True show ?thesis by (intro exI [of _ "Suc k"]) (simp add: true_issues_def)
    next
      case pr: False
      with False Item.prems have "issues_loop cap (Suc idx) p acc = Inr rs" by simp
      from Item.IH [OF this] obtain k where
        "rs = acc @ map issue_record (true_issues (take k (items p)))" ..
      with pr show ?thesis by (intro exI [of _ "Suc k"]) (simp add: true_issues_def)
    qed
  qed
next
  case (Raise e)
  then show ?case by simp
qed


lemma commits_loop_of_list:
  "\<forall>c \<in> set cs. author (commit c) \<noteq> None \<Longrightarrow>
   \<exists>ds. commits_loop (of_list cs) [] = Inr ds \<and> map Inr ds = map commit_record cs"
proof -
  assume wf: "\<forall>c \<in> set cs. author (commit c) \<noteq> None"
  have each: "\<And>c. c \<in> set cs \<Longrightarrow> Inr (projr (commit_record c)) = commit_record c"
  proof -
    fix c assume "c \<in> set cs"
    with wf obtain a where "author (commit c) = Some a" by auto
    then show "Inr (projr (commit_record c)) = commit_record c"
      by (simp add: commit_record_Some)
  qed
  have "commits_loop (of_list cs) [] = Inr (map (\<lambda>c. projr (commit_record c)) cs)"
    using commits_loop_followed_by [OF wf, of End "[]"] by (simp add: of_list_followed_by)
  moreover have "map Inr (map (\<lambda>c. projr (commit_record c)) cs) = map commit_record cs"
    using each by simp
  ultimately show ?thesis by blast
qed



lemma rows_pd_DataFrame: "rows (pd_DataFrame ds) = ds"
  by (simp add: pd_DataFrame_def)

lemma len_pd_DataFrame: "len (pd_DataFrame ds) = length ds"
  by (simp add: pd_DataFrame_def len_def)

subsection \<open>The fetchers over a collaborator that answers\<close>

lemma fetch_commits_unfold:
  assumes "get_repo (Github (environ ''GITHUB_TOKEN'')) repo_name = Inr repo"
      and "get_commits repo = Inr commits"
  shows "fetch_commits environ Github repo_name max_commits =
           (case commits_loop (case max_commits of None \<Rightarrow> commits
                                                  | Some m \<Rightarrow> slice_to m commits) [] of
              Inl e \<Rightarrow> Inl e
            | Inr dicts \<Rightarrow> Inr (pd_DataFrame dicts))"
  using assms by (simp add: fetch_commits_def Let_def)

lemma fetch_issues_unfold:
  assumes "get_repo (Github (environ ''GITHUB_TOKEN'')) repo_name = Inr repo"
      and "get_issues repo state_filter = Inr issues"
  shows "fetch_issues environ Github repo_name state_filter max_issues =
           (case issues_loop max_issues 0 issues [] of
              Inl e \<Rightarrow> Inl e
            | Inr records \<Rightarrow> Inr (pd_DataFrame records))"
  using assms by (simp add: fetch_issues_def Let_def)

lemma example_commit_records:
  "commit_record commit1 =
     Inr [(''sha'', VStr ''sha1''), (''author'', VStr ''Alice''),
          (''email'', VStr ''a@example.com''), (''date'', VTime 1762214400000000),
          (''message'', VStr ''Initial commit'')]"
  "commit_record commit2 =
     Inr [(''sha'', VStr ''sha2''), (''author'', VStr ''Bob''),
          (''email'', VStr ''b@example.com''), (''date'', VTime 1762128000000000),
          (''message'', VStr ''Bug fix'')]"
  by (simp_all add: commit_record_def commit1_def commit2_def newline_def t_now_def
        microseconds_per_day_def)

subsection \<open>Commits: row count, order and message\<close>

text \<open>
  C4. Over a listing of \<open>N\<close> commits, all with an author: with a positive cap \<open>C\<close> the
  table has \<open>min N C\<close> rows, and they are the records of the first \<open>C\<close> commits in
  the listing's order; with no cap it has \<open>N\<close> rows, the records of all commits in
  the listing's order.
\<close>

theorem fetch_commits_count_and_order:
  assumes "get_repo (Github (environ ''GITHUB_TOKEN'')) repo_name = Inr repo"
      and "get_commits repo = Inr (of_list cs)"
      and "\<forall>c \<in> set cs. author (commit c) \<noteq> None"
  shows "(0 < C \<longrightarrow>
            (\<exists>df. fetch_commits environ Github repo_name (Some C) = Inr df \<and>
                  len df = min (length cs) (nat C) \<and>
                  map Inr (rows df) = map commit_record (take (nat C) cs))) \<and>
         (\<exists>df. fetch_commits environ Github repo_name None = Inr df \<and>
               len df = length cs \<and>
               map Inr (rows df) = map commit_record cs)"
proof (intro conjI impI)
  assume pos: "0 < C"
  have "\<forall>c \<in> set (take (nat C) cs). author (commit c) \<noteq> None"
    using assms(3) by (auto dest: in_set_takeD)
  from commits_loop_of_list [OF this] obtain ds where
    ds: "commits_loop (of_list (take (nat C) cs)) [] = Inr ds"
        "map Inr ds = map commit_record (take (nat C) cs)"
    by blast
  from ds(2) have "length ds = length (take (nat C) cs)"
    by (metis length_map)
  then have n: "length ds = min (length cs) (nat C)" by simp
  have "fetch_commits environ Github repo_name (Some C) = Inr (pd_DataFrame ds)"
    using pos ds(1)
    by (simp add: fetch_commits_unfold [where Github = Github and environ = environ, OF assms(1,2)] slice_to_def slice_stop_of_list)
  with ds(2) n
  show "\<exists>df. fetch_commits environ Github repo_name (Some C) = Inr df \<and>
             len df = min (length cs) (nat C) \<and>
             map Inr (rows df) = map commit_record (take (nat C) cs)"
    by (simp add: len_pd_DataFrame rows_pd_DataFrame)
next
  from commits_loop_of_list [OF assms(3)] obtain ds where
    ds: "commits_loop (of_list cs) [] = Inr ds" "map Inr ds = map commit_record cs"
    by blast
  from ds(2) have n: "length ds = length cs" by (metis length_map)
  have "fetch_commits environ Github repo_name None = Inr (pd_DataFrame ds)"
    using ds(1) by (simp add: fetch_commits_unfold [where Github = Github and environ = environ, OF assms(1,2)])
  with ds(2) n
  show "\<exists>df. fetch_commits environ Github repo_name None = Inr df \<and>
             len df = length cs \<and> map Inr (rows df) = map commit_record cs"
    by (simp add: len_pd_DataFrame rows_pd_DataFrame)
qed

theorem fetch_commits_count_and_order_witness:
  "(\<exists>df. fetch_commits test_environ (DummyGithub (DummyRepo [commit1, commit2] []))
            ''any/repo'' (Some 1) = Inr df \<and>
         len df = 1 \<and>
         rows df = [[(''sha'', VStr ''sha1''), (''author'', VStr ''Alice''),
                     (''email'', VStr ''a@example.com''), (''date'', VTime 1762214400000000),
                     (''message'', VStr ''Initial commit'')]]) \<and>
   (\<exists>df. fetch_commits test_environ (DummyGithub (DummyRepo [commit1, commit2] []))
            ''any/repo'' None = Inr df \<and>
         len df = 2 \<and>
         map (\<lambda>row. map_of row ''sha'') (rows df) = [Some (VStr ''sha1''), Some (VStr ''sha2'')])"
proof -
  let ?repo = "DummyRepo [commit1, commit2] []"
  have r: "get_repo (DummyGithub ?repo (test_environ ''GITHUB_TOKEN'')) ''any/repo'' = Inr ?repo"
    by (simp add: DummyGithub_def)
  have l: "get_commits ?repo = Inr (of_list [commit1, commit2])"
    by (simp add: DummyRepo_def)
  have wf: "\<forall>c \<in> set [commit1, commit2]. author (commit c) \<noteq> None"
    by (simp add: commit1_def commit2_def)
  have capped: "\<exists>df. fetch_commits test_environ (DummyGithub ?repo) ''any/repo'' (Some 1) = Inr df \<and>
         len df = 1 \<and>
         rows df = [[(''sha'', VStr ''sha1''), (''author'', VStr ''Alice''),
                     (''email'', VStr ''a@example.com''), (''date'', VTime 1762214400000000),
                     (''message'', VStr ''Initial commit'')]]"
    using fetch_commits_count_and_order
            [where Github = "DummyGithub ?repo" and environ = test_environ, OF r l wf, of 1]
    by (auto simp: example_commit_records)
  have all: "\<exists>df. fetch_commits test_environ (DummyGithub ?repo) ''any/repo'' None = Inr df \<and>
         len df = 2 \<and>
         map (\<lambda>row. map_of row ''sha'') (rows df) = [Some (VStr ''sha1''), Some (VStr ''sha2'')]"
    using fetch_commits_count_and_order
            [where Github = "DummyGithub ?repo" and environ = test_environ, OF r l wf, of 1]
    by (auto simp: example_commit_records)
  from capped all show ?thesis by blast
qed

text \<open>
  C5. Every commit that \<open>fetch_commits\<close> processes pairs with one row of the table, in
  order, and the \<open>message\<close> field of that row holds no line feed and is the part of the
  commit's message before its first line feed (all of it when it has none).
\<close>

theorem fetch_commits_message_first_line:
  assumes "get_repo (Github (environ ''GITHUB_TOKEN'')) repo_name = Inr repo"
      and "get_commits repo = Inr commits"
      and "fetch_commits environ Github repo_name max_commits = Inr df"
  shows "list_all2
           (\<lambda>c row. \<exists>m. map_of row ''message'' = Some (VStr m) \<and>
                         newline \<notin> set m \<and>
                         m = takeWhile (\<lambda>ch. ch \<noteq> newline) (message (commit c)) \<and>
                         (if newline \<in> set (message (commit c))
                          then \<exists>rest. message (commit c) = m @ newline # rest
                          else m = message (commit c)))
           (items (case max_commits of None \<Rightarrow> commits | Some k \<Rightarrow> slice_to k commits))
           (rows df)"
proof -
  let ?kept = "case max_commits of None \<Rightarrow> commits | Some k \<Rightarrow> slice_to k commits"
  from assms(3) obtain ds where ds: "commits_loop ?kept [] = Inr ds" and df: "df = pd_DataFrame ds"
    by (auto simp: fetch_commits_unfold [where Github = Github and environ = environ, OF assms(1,2)]
             split: sum.splits)
  from commits_loop_Inr [OF ds]
  have paired: "list_all2 (\<lambda>c d. commit_record c = Inr d) (items ?kept) ds" by simp
  have first_line: "newline \<notin> set (takeWhile (\<lambda>ch. ch \<noteq> newline) s) \<and>
          (if newline \<in> set s
           then \<exists>rest. s = takeWhile (\<lambda>ch. ch \<noteq> newline) s @ newline # rest
           else takeWhile (\<lambda>ch. ch \<noteq> newline) s = s)" for s
  proof -
    have "newline \<notin> set (takeWhile (\<lambda>ch. ch \<noteq> newline) s)"
      by (auto dest: set_takeWhileD)
    moreover have "takeWhile (\<lambda>ch. ch \<noteq> newline) s = s" if "newline \<notin> set s"
      using that by (induction s) auto
    moreover have "\<exists>rest. s = takeWhile (\<lambda>ch. ch \<noteq> newline) s @ newline # rest"
      if "newline \<in> set s"
      using that by (induction s) auto
    ultimately show ?thesis by simp
  qed
  have "list_all2
           (\<lambda>c row. \<exists>m. map_of row ''message'' = Some (VStr m) \<and>
                         newline \<notin> set m \<and>
                         m = takeWhile (\<lambda>ch. ch \<noteq> newline) (message (commit c)) \<and>
                         (if newline \<in> set (message (commit c))
                          then \<exists>rest. message (commit c) = m @ newline # rest
                          else m = message (commit c)))
           (items ?kept) ds"
    using paired
  proof (rule list_all2_mono)
    fix c d
    assume "commit_record c = Inr d"
    from commit_record_Inr [OF this] first_line [of "message (commit c)"]
    show "\<exists>m. map_of d ''message'' = Some (VStr m) \<and>
              newline \<notin> set m \<and>
              m = takeWhile (\<lambda>ch. ch \<noteq> newline) (message (commit c)) \<and>
              (if newline \<in> set (message (commit c))
               then \<exists>rest. message (commit c) = m @ newline # rest
               else m = message (commit c))"
      by (simp split: if_splits)
  qed
  with df show ?thesis by (simp add: rows_pd_DataFrame)
qed

theorem fetch_commits_message_first_line_witness:
  "fetch_commits test_environ (DummyGithub (DummyRepo [commit1, commit2] [])) ''any/repo'' None =
     Inr (pd_DataFrame
       [[(''sha'', VStr ''sha1''), (''author'', VStr ''Alice''),
         (''email'', VStr ''a@example.com''), (''date'', VTime 1762214400000000),
         (''message'', VStr ''Initial commit'')],
        [(''sha'', VStr ''sha2''), (''author'', VStr ''Bob''),
         (''email'', VStr ''b@example.com''), (''date'', VTime 1762128000000000),
         (''message'', VStr ''Bug fix'')]]) \<and>
   list_all2
     (\<lambda>c row. \<exists>m. map_of row ''message'' = Some (VStr m) \<and>
                   newline \<notin> set m \<and>
                   m = takeWhile (\<lambda>ch. ch \<noteq> newline) (message (commit c)) \<and>
                   (if newline \<in> set (message (commit c))
                    then \<exists>rest. message (commit c) = m @ newline # rest
                    else m = message (commit c)))
     [commit1, commit2]
     [[(''sha'', VStr ''sha1''), (''author'', VStr ''Alice''),
       (''email'', VStr ''a@example.com''), (''date'', VTime 1762214400000000),
       (''message'', VStr ''Initial commit'')],
      [(''sha'', VStr ''sha2''), (''author'', VStr ''Bob''),
       (''email'', VStr ''b@example.com''), (''date'', VTime 1762128000000000),
       (''message'', VStr ''Bug fix'')]]"
proof -
  let ?repo = "DummyRepo [commit1, commit2] []"
  let ?rows = "[[(''sha'', VStr ''sha1''), (''author'', VStr ''Alice''),
         (''email'', VStr ''a@example.com''), (''date'', VTime 1762214400000000),
         (''message'', VStr ''Initial commit'')],
        [(''sha'', VStr ''sha2''), (''author'', VStr ''Bob''),
         (''email'', VStr ''b@example.com''), (''date'', VTime 1762128000000000),
         (''message'', VStr ''Bug fix'')]]"
  have r: "get_repo (DummyGithub ?repo (test_environ ''GITHUB_TOKEN'')) ''any/repo'' = Inr ?repo"
    by (simp add: DummyGithub_def)
  have l: "get_commits ?repo = Inr (of_list [commit1, commit2])"
    by (simp add: DummyRepo_def)
  have f: "fetch_commits test_environ (DummyGithub ?repo) ''any/repo'' None =
             Inr (pd_DataFrame ?rows)"
    by (simp add: fetch_commits_def DummyGithub_def DummyRepo_def example_commit_records)
  from fetch_commits_message_first_line
         [where Github = "DummyGithub ?repo" and environ = test_environ, OF r l f]
  have "list_all2
     (\<lambda>c row. \<exists>m. map_of row ''message'' = Some (VStr m) \<and>
                   newline \<notin> set m \<and>
                   m = takeWhile (\<lambda>ch. ch \<noteq> newline) (message (commit c)) \<and>
                   (if newline \<in> set (message (commit c))
                    then \<exists>rest. message (commit c) = m @ newline # rest
                    else m = message (commit c)))
     [commit1, commit2] ?rows"
    by (simp only: option.case items_of_list rows_pd_DataFrame)
  with f show ?thesis by (rule conjI)
qed

subsection \<open>Issues: pull requests and the cap\<close>

lemma example_issue_records:
  "issue_record issue_a =
     [(''id'', VInt 1), (''number'', VInt 101), (''title'', VStr ''Issue A''),
      (''user'', VUser \<lparr>login = ''alice''\<rparr>), (''state'', VStr ''open''),
      (''created_at'', VTime 1759363200000000), (''closed_at'', VNone),
      (''comments'', VInt 0), (''open_duration_days'', VNone)]"
  "issue_record issue_b =
     [(''id'', VInt 3), (''number'', VInt 103), (''title'', VStr ''Issue B''),
      (''user'', VUser \<lparr>login = ''bob''\<rparr>), (''state'', VStr ''closed''),
      (''created_at'', VTime 1762041600000000), (''closed_at'', VTime 1762214400000000),
      (''comments'', VInt 2), (''open_duration_days'', VInt 2)]"
  by (simp_all add: issue_record_def issue_a_def issue_b_def t_now_def t_2025_10_02_def
        microseconds_per_day_def timedelta_days_def)

lemma example_true_issues:
  "pull_request issue_a = None" "pull_request issue_b = None"
  "pull_request pr_a = Some \<lparr>html_url = ''pr''\<rparr>"
  by (simp_all add: issue_a_def issue_b_def pr_a_def)

lemma list_all2_filter_map:
  "list_all2 (\<lambda>x y. P x \<and> y = f x) (filter P xs) (map f (filter P xs))"
  by (induction xs) auto

text \<open>
  C6. With no cap, over a listing with \<open>K\<close> entries that are not pull requests and any
  pull requests among them, the table has \<open>K\<close> rows: the records of the entries that
  are not pull requests, in the listing's order, and of no other entry.
\<close>

theorem fetch_issues_uncapped_excludes_pull_requests:
  assumes "get_repo (Github (environ ''GITHUB_TOKEN'')) repo_name = Inr repo"
      and "get_issues repo state_filter = Inr (of_list xs)"
  shows "\<exists>df. fetch_issues environ Github repo_name state_filter None = Inr df \<and>
              len df = length (filter (\<lambda>i. pull_request i = None) xs) \<and>
              list_all2 (\<lambda>i row. pull_request i = None \<and> row = issue_record i)
                (filter (\<lambda>i. pull_request i = None) xs) (rows df)"
proof -
  have "fetch_issues environ Github repo_name state_filter None =
          Inr (pd_DataFrame (map issue_record (true_issues xs)))"
    by (simp add: fetch_issues_unfold [where Github = Github and environ = environ, OF assms]
          issues_loop_no_cap)
  moreover have "list_all2 (\<lambda>i row. pull_request i = None \<and> row = issue_record i)
                   (filter (\<lambda>i. pull_request i = None) xs)
                   (map issue_record (true_issues xs))"
    unfolding true_issues_def by (rule list_all2_filter_map)
  ultimately show ?thesis
    by (simp add: len_pd_DataFrame rows_pd_DataFrame true_issues_def)
qed

theorem fetch_issues_uncapped_excludes_pull_requests_witness:
  "\<exists>df. fetch_issues test_environ (DummyGithub (DummyRepo [] [issue_a, pr_a, issue_b]))
           ''any/repo'' ''all'' None = Inr df \<and>
        len df = 2 \<and>
        rows df = [issue_record issue_a, issue_record issue_b]"
proof -
  let ?repo = "DummyRepo [] [issue_a, pr_a, issue_b]"
  have r: "get_repo (DummyGithub ?repo (test_environ ''GITHUB_TOKEN'')) ''any/repo'' = Inr ?repo"
    by (simp add: DummyGithub_def)
  have l: "get_issues ?repo ''all'' = Inr (of_list [issue_a, pr_a, issue_b])"
    by (simp add: DummyRepo_def)
  from fetch_issues_uncapped_excludes_pull_requests
         [where Github = "DummyGithub ?repo" and environ = test_environ, OF r l]
  show ?thesis
    by (auto simp: example_true_issues list_all2_Cons1)
qed

text \<open>
  C1, as the specification states it, fails: with a cap of 2 over a pull request followed
  by two true issues, the table has one row, although two true issues exist.
\<close>

theorem fetch_issues_cap_counts_pull_requests_counterexample:
  "length (true_issues [pr_a, issue_a, issue_b]) = 2 \<and>
   fetch_issues test_environ (DummyGithub (DummyRepo [] [pr_a, issue_a, issue_b]))
     ''any/repo'' ''all'' (Some 2) = Inr (pd_DataFrame [issue_record issue_a]) \<and>
   len (pd_DataFrame [issue_record issue_a]) = 1"
  by (simp add: fetch_issues_def DummyGithub_def DummyRepo_def cap_reached_def
        example_true_issues true_issues_def len_pd_DataFrame)

text \<open>
  C1, amended. With a positive cap \<open>C\<close> the loop scans the first \<open>C\<close> entries of the
  listing, pull requests included, and the table holds the records of the entries among
  them that are not pull requests, in order. So the table has at most \<open>C\<close> rows, and
  its rows together with the pull requests among the first \<open>C\<close> entries number
  \<open>min N C\<close>, over a listing of \<open>N\<close> entries.
\<close>

theorem fetch_issues_cap_bounds_scanned_entries:
  assumes "get_repo (Github (environ ''GITHUB_TOKEN'')) repo_name = Inr repo"
      and "get_issues repo state_filter = Inr (of_list xs)"
      and "0 < C"
  shows "\<exists>df. fetch_issues environ Github repo_name state_filter (Some C) = Inr df \<and>
              rows df = map issue_record (true_issues (take (nat C) xs)) \<and>
              len df \<le> nat C \<and>
              len df + length (filter (\<lambda>i. pull_request i \<noteq> None) (take (nat C) xs)) =
                min (length xs) (nat C)"
proof -
  from assms(3) have "C \<noteq> 0" by simp
  then have "fetch_issues environ Github repo_name state_filter (Some C) =
          Inr (pd_DataFrame (map issue_record (true_issues (take (nat C) xs))))"
    by (simp add: fetch_issues_unfold [where Github = Github and environ = environ, OF assms(1,2)]
          issues_loop_cap)
  moreover have "length (true_issues (take (nat C) xs)) +
                   length (filter (\<lambda>i. pull_request i \<noteq> None) (take (nat C) xs)) =
                 min (length xs) (nat C)"
    using sum_length_filter_compl [of "\<lambda>i. pull_request i = None" "take (nat C) xs"]
    by (simp add: true_issues_def)
  moreover have "length (true_issues (take (nat C) xs)) \<le> nat C"
    using length_filter_le [of "\<lambda>i. pull_request i = None" "take (nat C) xs"]
    by (simp add: true_issues_def)
  ultimately show ?thesis
    by (simp add: len_pd_DataFrame rows_pd_DataFrame)
qed

theorem fetch_issues_cap_bounds_scanned_entries_witness:
  "\<exists>df. fetch_issues test_environ (DummyGithub (DummyRepo [] [issue_a, pr_a, issue_b]))
           ''any/repo'' ''all'' (Some 2) = Inr df \<and>
        rows df = [issue_record issue_a] \<and>
        len df + 1 = 2"
proof -
  let ?repo = "DummyRepo [] [issue_a, pr_a, issue_b]"
  have r: "get_repo (DummyGithub ?repo (test_environ ''GITHUB_TOKEN'')) ''any/repo'' = Inr ?repo"
    by (simp add: DummyGithub_def)
  have l: "get_issues ?repo ''all'' = Inr (of_list [issue_a, pr_a, issue_b])"
    by (simp add: DummyRepo_def)
  have pos: "0 < (2::int)" by simp
  from fetch_issues_cap_bounds_scanned_entries
         [where Github = "DummyGithub ?repo" and environ = test_environ, OF r l pos]
  show ?thesis
    by (auto simp: example_true_issues true_issues_def)
qed

subsection \<open>A cap of zero\<close>

lemma fetch_commits_cap_zero:
  assumes "get_repo (Github (environ ''GITHUB_TOKEN'')) repo_name = Inr repo"
      and "get_commits repo = Inr commits"
  shows "fetch_commits environ Github repo_name (Some 0) = Inr (pd_DataFrame [])"
  by (simp add: fetch_commits_unfold [where Github = Github and environ = environ, OF assms]
        slice_to_def)

lemma fetch_issues_cap_zero:
  "fetch_issues environ Github repo_name state_filter (Some 0) =
   fetch_issues environ Github repo_name state_filter None"
  unfolding fetch_issues_def issues_loop_zero_cap by (rule refl)

text \<open>
  C10. A cap of 0 is read differently by the two fetchers: \<open>fetch_issues\<close> with a cap
  of 0 is \<open>fetch_issues\<close> with no cap, and over a listing returns the records of all
  its true issues; \<open>fetch_commits\<close> with a cap of 0 returns a table of no rows.
\<close>

theorem cap_zero_asymmetry:
  assumes "get_repo (Github (environ ''GITHUB_TOKEN'')) repo_name = Inr repo"
      and "get_issues repo state_filter = Inr (of_list xs)"
      and "get_commits repo = Inr commits"
  shows "fetch_issues environ Github repo_name state_filter (Some 0) =
           fetch_issues environ Github repo_name state_filter None \<and>
         (\<exists>df. fetch_issues environ Github repo_name state_filter (Some 0) = Inr df \<and>
               rows df = map issue_record (true_issues xs) \<and>
               len df = length (true_issues xs)) \<and>
         (\<exists>df. fetch_commits environ Github repo_name (Some 0) = Inr df \<and> len df = 0)"
proof -
  have "fetch_issues environ Github repo_name state_filter None =
          Inr (pd_DataFrame (map issue_record (true_issues xs)))"
    by (simp add: fetch_issues_unfold [where Github = Github and environ = environ, OF assms(1,2)]
          issues_loop_no_cap)
  then show ?thesis
    using fetch_commits_cap_zero [where Github = Github and environ = environ, OF assms(1,3)]
    by (simp add: fetch_issues_cap_zero len_pd_DataFrame rows_pd_DataFrame)
qed

theorem cap_zero_asymmetry_witness:
  "(\<exists>df. fetch_issues test_environ
            (DummyGithub (DummyRepo [commit1, commit2] [issue_a, pr_a, issue_b]))
            ''any/repo'' ''all'' (Some 0) = Inr df \<and>
         rows df = [issue_record issue_a, issue_record issue_b] \<and> len df = 2) \<and>
   (\<exists>df. fetch_commits test_environ
            (DummyGithub (DummyRepo [commit1, commit2] [issue_a, pr_a, issue_b]))
            ''any/repo'' (Some 0) = Inr df \<and> len df = 0)"
proof -
  let ?repo = "DummyRepo [commit1, commit2] [issue_a, pr_a, issue_b]"
  have r: "get_repo (DummyGithub ?repo (test_environ ''GITHUB_TOKEN'')) ''any/repo'' = Inr ?repo"
    by (simp add: DummyGithub_def)
  have l: "get_issues ?repo ''all'' = Inr (of_list [issue_a, pr_a, issue_b])"
    by (simp add: DummyRepo_def)
  have c: "get_commits ?repo = Inr (of_list [commit1, commit2])"
    by (simp add: DummyRepo_def)
  have t: "true_issues [issue_a, pr_a, issue_b] = [issue_a, issue_b]"
    by (simp add: example_true_issues true_issues_def)
  from cap_zero_asymmetry
         [where Github = "DummyGithub ?repo" and environ = test_environ, OF r l c]
  have "\<exists>df. fetch_issues test_environ (DummyGithub ?repo) ''any/repo'' ''all'' (Some 0) = Inr df \<and>
             rows df = map issue_record (true_issues [issue_a, pr_a, issue_b]) \<and>
             len df = length (true_issues [issue_a, pr_a, issue_b])"
    and "\<exists>df. fetch_commits test_environ (DummyGithub ?repo) ''any/repo'' (Some 0) = Inr df \<and>
             len df = 0"
    by blast+
  then show ?thesis unfolding t by (auto simp: numeral_2_eq_2)
qed

subsection \<open>Errors of the collaborator\<close>









subsection \<open>Issues: the open duration and the state filter\<close>

lemma fetch_issues_rows:
  assumes "get_repo (Github (environ ''GITHUB_TOKEN'')) repo_name = Inr repo"
      and "get_issues repo state_filter = Inr issues"
      and "fetch_issues environ Github repo_name state_filter max_issues = Inr df"
  shows "\<exists>k. rows df = map issue_record (true_issues (take k (items issues)))"
proof -
  from assms(3) obtain rs where rs: "issues_loop max_issues 0 issues [] = Inr rs"
    and df: "df = pd_DataFrame rs"
    by (auto simp: fetch_issues_unfold [where Github = Github and environ = environ, OF assms(1,2)]
             split: sum.splits)
  from issues_loop_Inr [OF rs] df show ?thesis by (simp add: rows_pd_DataFrame)
qed

lemma fetch_issues_row_source:
  assumes "get_repo (Github (environ ''GITHUB_TOKEN'')) repo_name = Inr repo"
      and "get_issues repo state_filter = Inr issues"
      and "fetch_issues environ Github repo_name state_filter max_issues = Inr df"
      and "row \<in> set (rows df)"
  shows "\<exists>i \<in> set (items issues). pull_request i = None \<and> row = issue_record i"
proof -
  from fetch_issues_rows [where Github = Github and environ = environ, OF assms(1-3)]
  obtain k where "rows df = map issue_record (true_issues (take k (items issues)))" ..
  with assms(4) obtain i where "i \<in> set (true_issues (take k (items issues)))"
    and "row = issue_record i" by auto
  then show ?thesis by (auto simp: true_issues_def dest: in_set_takeD)
qed

lemma floor_days:
  "timedelta_days closed created * microseconds_per_day \<le> closed - created \<and>
   closed - created < (timedelta_days closed created + 1) * microseconds_per_day"
proof -
  let ?m = microseconds_per_day
  let ?d = "closed - created"
  have pos: "0 < ?m" by (simp add: microseconds_per_day_def)
  have eq: "?d div ?m * ?m + ?d mod ?m = ?d" by simp
  have lo: "0 \<le> ?d mod ?m" and hi: "?d mod ?m < ?m"
    using pos by simp_all
  have succ: "(?d div ?m + 1) * ?m = ?d div ?m * ?m + ?m"
    by (simp add: algebra_simps)
  from eq lo have "?d div ?m * ?m \<le> ?d" by linarith
  moreover from eq hi have "?d < ?d div ?m * ?m + ?m" by linarith
  ultimately show ?thesis
    unfolding timedelta_days_def succ by simp
qed

lemma truncated_days_nonneg:
  "created \<le> closed \<Longrightarrow> truncated_days closed created = timedelta_days closed created"
  by (cases "closed = created") (simp_all add: truncated_days_def timedelta_days_def)

text \<open>
  C7, as the specification states it, fails on the word "truncated": for an entry closed
  one second before it was created the row's \<open>open_duration_days\<close> is \<open>-1\<close>, while
  the difference with its fraction of a day dropped is \<open>0\<close>.
\<close>

theorem open_duration_days_truncated_counterexample:
  "fetch_issues test_environ (DummyGithub (DummyRepo [] [issue_backdated])) ''any/repo'' ''all'' None
     = Inr (pd_DataFrame [issue_record issue_backdated]) \<and>
   map_of (issue_record issue_backdated) ''created_at'' = Some (VTime t_now) \<and>
   map_of (issue_record issue_backdated) ''closed_at'' = Some (VTime (t_now - 1000000)) \<and>
   map_of (issue_record issue_backdated) ''open_duration_days'' = Some (VInt (- 1)) \<and>
   truncated_days (t_now - 1000000) t_now = 0"
  by (simp add: fetch_issues_def DummyGithub_def DummyRepo_def cap_reached_def
        issue_record_def issue_backdated_def timedelta_days_def truncated_days_def
        microseconds_per_day_def)

text \<open>
  C7, amended. In every row that \<open>fetch_issues\<close> returns, \<open>open_duration_days\<close> is
  present exactly when \<open>closed_at\<close> is, and when present it is the floor of the
  difference between \<open>closed_at\<close> and \<open>created_at\<close> in days: the whole number \<open>d\<close>
  of days with \<open>d\<close> days at most the difference and the difference less than \<open>d + 1\<close>
  days. When \<open>closed_at\<close> is not before \<open>created_at\<close> this is the truncated
  difference.
\<close>

theorem fetch_issues_open_duration_days:
  assumes "get_repo (Github (environ ''GITHUB_TOKEN'')) repo_name = Inr repo"
      and "get_issues repo state_filter = Inr issues"
      and "fetch_issues environ Github repo_name state_filter max_issues = Inr df"
  shows "\<forall>row \<in> set (rows df).
           \<exists>created. map_of row ''created_at'' = Some (VTime created) \<and>
             ((map_of row ''closed_at'' = Some VNone \<and>
               map_of row ''open_duration_days'' = Some VNone) \<or>
              (\<exists>closed d.
                 map_of row ''closed_at'' = Some (VTime closed) \<and>
                 map_of row ''open_duration_days'' = Some (VInt d) \<and>
                 d * microseconds_per_day \<le> closed - created \<and>
                 closed - created < (d + 1) * microseconds_per_day \<and>
                 (created \<le> closed \<longrightarrow> d = truncated_days closed created)))"
proof
  fix row
  assume "row \<in> set (rows df)"
  from fetch_issues_row_source [where Github = Github and environ = environ, OF assms this]
  obtain i where row: "row = issue_record i" by blast
  show "\<exists>created. map_of row ''created_at'' = Some (VTime created) \<and>
             ((map_of row ''closed_at'' = Some VNone \<and>
               map_of row ''open_duration_days'' = Some VNone) \<or>
              (\<exists>closed d.
                 map_of row ''closed_at'' = Some (VTime closed) \<and>
                 map_of row ''open_duration_days'' = Some (VInt d) \<and>
                 d * microseconds_per_day \<le> closed - created \<and>
                 closed - created < (d + 1) * microseconds_per_day \<and>
                 (created \<le> closed \<longrightarrow> d = truncated_days closed created)))"
  proof (cases "closed_at i")
    case None
    with row show ?thesis by (simp add: issue_record_def)
  next
    case (Some t)
    have cells: "map_of row ''created_at'' = Some (VTime (created_at i))"
      "map_of row ''closed_at'' = Some (VTime t)"
      "map_of row ''open_duration_days'' = Some (VInt (timedelta_days t (created_at i)))"
      using row Some by (simp_all add: issue_record_def)
    with floor_days [of t "created_at i"] truncated_days_nonneg [of "created_at i" t]
    show ?thesis by auto
  qed
qed

theorem fetch_issues_open_duration_days_witness:
  "fetch_issues test_environ (DummyGithub (DummyRepo [] [issue_a, issue_b])) ''any/repo'' ''all'' None
     = Inr (pd_DataFrame [issue_record issue_a, issue_record issue_b]) \<and>
   (\<exists>created. map_of (issue_record issue_b) ''created_at'' = Some (VTime created) \<and>
      ((map_of (issue_record issue_b) ''closed_at'' = Some VNone \<and>
        map_of (issue_record issue_b) ''open_duration_days'' = Some VNone) \<or>
       (\<exists>closed d.
          map_of (issue_record issue_b) ''closed_at'' = Some (VTime closed) \<and>
          map_of (issue_record issue_b) ''open_duration_days'' = Some (VInt d) \<and>
          d * microseconds_per_day \<le> closed - created \<and>
          closed - created < (d + 1) * microseconds_per_day \<and>
          (created \<le> closed \<longrightarrow> d = truncated_days closed created)))) \<and>
   map_of (issue_record issue_a) ''closed_at'' = Some VNone \<and>
   map_of (issue_record issue_a) ''open_duration_days'' = Some VNone \<and>
   map_of (issue_record issue_b) ''closed_at'' = Some (VTime 1762214400000000) \<and>
   map_of (issue_record issue_b) ''open_duration_days'' = Some (VInt 2)"
proof -
  let ?repo = "DummyRepo [] [issue_a, issue_b]"
  have r: "get_repo (DummyGithub ?repo (test_environ ''GITHUB_TOKEN'')) ''any/repo'' = Inr ?repo"
    by (simp add: DummyGithub_def)
  have l: "get_issues ?repo ''all'' = Inr (of_list [issue_a, issue_b])"
    by (simp add: DummyRepo_def)
  have f: "fetch_issues test_environ (DummyGithub ?repo) ''any/repo'' ''all'' None
     = Inr (pd_DataFrame [issue_record issue_a, issue_record issue_b])"
    by (simp add: fetch_issues_def DummyGithub_def DummyRepo_def cap_reached_def
          example_true_issues)
  have cells: "map_of (issue_record issue_a) ''closed_at'' = Some VNone"
    "map_of (issue_record issue_a) ''open_duration_days'' = Some VNone"
    "map_of (issue_record issue_b) ''closed_at'' = Some (VTime 1762214400000000)"
    "map_of (issue_record issue_b) ''open_duration_days'' = Some (VInt 2)"
    by (simp_all add: example_issue_records)
  have row: "issue_record issue_b \<in> set (rows (pd_DataFrame [issue_record issue_a, issue_record issue_b]))"
    by (simp add: rows_pd_DataFrame)
  note at_b = fetch_issues_open_duration_days
         [where Github = "DummyGithub ?repo" and environ = test_environ, OF r l f,
          THEN bspec, OF row]
  from f at_b cells show ?thesis by (intro conjI)
qed

text \<open>
  C8, as the specification states it, fails: the fetcher passes the filter to the
  collaborator and filters nothing itself, so over a collaborator that ignores the
  filter a fetch with the filter \<open>closed\<close> returns a row whose state is \<open>open\<close>.
\<close>

theorem fetch_issues_state_unfiltered_counterexample:
  "fetch_issues test_environ (DummyGithub (UnfilteredRepo [] [issue_a])) ''any/repo'' ''closed'' None
     = Inr (pd_DataFrame [issue_record issue_a]) \<and>
   map_of (issue_record issue_a) ''state'' = Some (VStr ''open'')"
  by (simp add: fetch_issues_def DummyGithub_def UnfilteredRepo_def cap_reached_def
        example_true_issues example_issue_records)

text \<open>
  C8, amended. The \<open>state\<close> field of every returned row is the state of an entry of
  the collaborator's listing, as the collaborator gave it. So when every entry the
  collaborator returns for the filter has the requested state, every row's \<open>state\<close>
  equals the filter; the fetcher itself filters nothing by state, whatever the filter.
\<close>

theorem fetch_issues_state_as_listed:
  assumes "get_repo (Github (environ ''GITHUB_TOKEN'')) repo_name = Inr repo"
      and "get_issues repo state_filter = Inr issues"
      and "fetch_issues environ Github repo_name state_filter max_issues = Inr df"
  shows "(\<forall>row \<in> set (rows df).
            \<exists>i \<in> set (items issues). map_of row ''state'' = Some (VStr (state i))) \<and>
         ((\<forall>i \<in> set (items issues). state i = state_filter) \<longrightarrow>
            (\<forall>row \<in> set (rows df). map_of row ''state'' = Some (VStr state_filter)))"
proof -
  have each: "\<exists>i \<in> set (items issues). map_of row ''state'' = Some (VStr (state i))"
    if "row \<in> set (rows df)" for row
  proof -
    from fetch_issues_row_source [where Github = Github and environ = environ, OF assms that]
    obtain i where "i \<in> set (items issues)" "row = issue_record i" by blast
    then show ?thesis by (auto simp: issue_record_def)
  qed
  then show ?thesis by fastforce
qed

theorem fetch_issues_state_as_listed_witness:
  "fetch_issues test_environ (DummyGithub (DummyRepo [] [issue_a, pr_a, issue_b]))
     ''any/repo'' ''closed'' None = Inr (pd_DataFrame [issue_record issue_b]) \<and>
   get_issues (DummyRepo [] [issue_a, pr_a, issue_b]) ''closed'' = Inr (of_list [pr_a, issue_b]) \<and>
   state pr_a = ''closed'' \<and> state issue_b = ''closed'' \<and>
   map_of (issue_record issue_b) ''state'' = Some (VStr ''closed'')"
proof -
  let ?repo = "DummyRepo [] [issue_a, pr_a, issue_b]"
  have r: "get_repo (DummyGithub ?repo (test_environ ''GITHUB_TOKEN'')) ''any/repo'' = Inr ?repo"
    by (simp add: DummyGithub_def)
  have l: "get_issues ?repo ''closed'' = Inr (of_list [pr_a, issue_b])"
    by (simp add: DummyRepo_def issue_a_def pr_a_def issue_b_def)
  have f: "fetch_issues test_environ (DummyGithub ?repo) ''any/repo'' ''closed'' None
             = Inr (pd_DataFrame [issue_record issue_b])"
    by (simp add: fetch_issues_def DummyGithub_def l cap_reached_def example_true_issues)
  have s1: "state pr_a = ''closed''" and s2: "state issue_b = ''closed''"
    by (simp_all add: pr_a_def issue_b_def)
  from s1 s2 have s: "\<forall>i \<in> set (items (of_list [pr_a, issue_b])). state i = ''closed''"
    by simp
  have row: "issue_record issue_b \<in> set (rows (pd_DataFrame [issue_record issue_b]))"
    by (simp add: rows_pd_DataFrame)
  note at_b = fetch_issues_state_as_listed
         [where Github = "DummyGithub ?repo" and environ = test_environ, OF r l f,
          THEN conjunct2, THEN mp, OF s, THEN bspec, OF row]
  from f l s1 s2 at_b show ?thesis by (intro conjI)
qed

subsection \<open>Tables of empty listings, and the user field\<close>

text \<open>
  C2 at the empty listings: the table has no row, and it has no column either, since
  there is no record to take the columns from. Over a listing that is not empty the
  columns are the full sets.
\<close>

theorem fetch_empty_listing_has_no_columns:
  "fetch_commits test_environ (DummyGithub (DummyRepo [] [])) ''any/repo'' None
     = Inr \<lparr>columns = [], rows = []\<rparr> \<and>
   fetch_issues test_environ (DummyGithub (DummyRepo [] [pr_a])) ''any/repo'' ''all'' None
     = Inr \<lparr>columns = [], rows = []\<rparr> \<and>
   (\<exists>df. fetch_commits test_environ (DummyGithub (DummyRepo [commit2] [])) ''any/repo'' None
            = Inr df \<and>
         columns df = [''sha'', ''author'', ''email'', ''date'', ''message'']) \<and>
   (\<exists>df. fetch_issues test_environ (DummyGithub (DummyRepo [] [issue_a])) ''any/repo'' ''all'' None
            = Inr df \<and>
         columns df = [''id'', ''number'', ''title'', ''user'', ''state'', ''created_at'',
                       ''closed_at'', ''comments'', ''open_duration_days''])"
  by (simp add: fetch_commits_def fetch_issues_def DummyGithub_def DummyRepo_def
        cap_reached_def example_true_issues example_commit_records example_issue_records
        pd_DataFrame_def)

text \<open>
  C3 at a listing of one issue by \<open>alice\<close>: the \<open>user\<close> field of the row is the
  user object of the entry, not the string of its login.
\<close>

theorem fetch_issues_user_is_an_object:
  "fetch_issues test_environ (DummyGithub (DummyRepo [] [issue_a])) ''any/repo'' ''all'' None
     = Inr (pd_DataFrame [issue_record issue_a]) \<and>
   map_of (issue_record issue_a) ''user'' = Some (VUser \<lparr>login = ''alice''\<rparr>) \<and>
   map_of (issue_record issue_a) ''user'' \<noteq> Some (VStr ''alice'')"
  by (simp add: fetch_issues_def DummyGithub_def DummyRepo_def cap_reached_def
        example_true_issues example_issue_records)

subsection \<open>Errors, repeated calls and malformed records\<close>

text \<open>Over a collaborator without state the two embeddings of each fetcher agree.\<close>

lemma fetch_commits_st_stateless:
  "fetch_commits_st environ (stateless Github) repo_name max_commits w =
     (fetch_commits environ Github repo_name max_commits, w)"
  by (simp add: fetch_commits_st_def fetch_commits_def stateless_def Let_def split: sum.splits)

lemma fetch_issues_st_stateless:
  "fetch_issues_st environ (stateless Github) repo_name state_filter max_issues w =
     (fetch_issues environ Github repo_name state_filter max_issues, w)"
  by (simp add: fetch_issues_st_def fetch_issues_def stateless_def Let_def split: sum.splits)













end
